theory Spec2Isabelle
  imports Complex_Main "HOL-Library.Multiset" "HOL-Library.Char_ord"
    "HOL-Library.List_Lexorder" "HOL-Library.Product_Lexorder"
begin

section \<open>Characters and string views (utils/StringUtils.hpp)\<close>

text \<open>
  A \<open>std::string\<close> or \<open>std::string_view\<close> is a \<open>string\<close> (a list of bytes).
  \<open>std::string::npos\<close> is \<open>None\<close>. The character classes are those of the "C" locale,
  which is the locale a program that never calls \<open>setlocale\<close> runs in.
\<close>

definition isspace :: "char \<Rightarrow> bool" where
  "isspace c \<longleftrightarrow> c = CHR 0x20 \<or> c = CHR 0x09 \<or> c = CHR 0x0A \<or> c = CHR 0x0B
      \<or> c = CHR 0x0C \<or> c = CHR 0x0D"

definition isdigit :: "char \<Rightarrow> bool" where
  "isdigit c \<longleftrightarrow> (48::nat) \<le> of_char c \<and> (of_char c :: nat) \<le> 57"

definition toupper :: "char \<Rightarrow> char" where
  "toupper c =
     (case map_of (zip ''abcdefghijklmnopqrstuvwxyz'' ''ABCDEFGHIJKLMNOPQRSTUVWXYZ'') c of
        Some u \<Rightarrow> u
      | None \<Rightarrow> c)"

definition tolower :: "char \<Rightarrow> char" where
  "tolower c =
     (case map_of (zip ''ABCDEFGHIJKLMNOPQRSTUVWXYZ'' ''abcdefghijklmnopqrstuvwxyz'') c of
        Some l \<Rightarrow> l
      | None \<Rightarrow> c)"

definition toUpper :: "string \<Rightarrow> string" where
  "toUpper sv = map toupper sv"

definition toLower :: "string \<Rightarrow> string" where
  "toLower sv = map tolower sv"

definition ltrim :: "string \<Rightarrow> string" where
  "ltrim sv = dropWhile isspace sv"

definition rtrim :: "string \<Rightarrow> string" where
  "rtrim sv = rev (dropWhile isspace (rev sv))"

definition trim :: "string \<Rightarrow> string" where
  "trim sv = rtrim (ltrim sv)"

text \<open>\<open>sv.substr(pos, n)\<close>, for \<open>pos \<le> sv.size()\<close> (every call below guards it).\<close>

definition substr :: "string \<Rightarrow> nat \<Rightarrow> nat \<Rightarrow> string" where
  "substr sv pos n = take n (drop pos sv)"

fun starts_with :: "string \<Rightarrow> string \<Rightarrow> bool" where
  "starts_with sv [] = True"
| "starts_with [] (p # ps) = False"
| "starts_with (c # cs) (p # ps) = (c = p \<and> starts_with cs ps)"

text \<open>\<open>sv.find(ch)\<close> and \<open>sv.find(ch, pos)\<close>.\<close>

fun find_char :: "string \<Rightarrow> char \<Rightarrow> nat option" where
  "find_char [] ch = None"
| "find_char (c # cs) ch = (if c = ch then Some 0 else map_option Suc (find_char cs ch))"

definition find_char_from :: "string \<Rightarrow> char \<Rightarrow> nat \<Rightarrow> nat option" where
  "find_char_from sv ch pos = map_option (\<lambda>i. i + pos) (find_char (drop pos sv) ch)"

text \<open>\<open>sv.find(needle)\<close>: the first position at which \<open>needle\<close> starts.\<close>

fun find_str :: "string \<Rightarrow> string \<Rightarrow> nat option" where
  "find_str [] needle = (if needle = [] then Some 0 else None)"
| "find_str (c # cs) needle =
     (if starts_with (c # cs) needle then Some 0 else map_option Suc (find_str cs needle))"

definition contains :: "string \<Rightarrow> string \<Rightarrow> bool" where
  "contains sv needle = (if needle = [] then True else find_str sv needle \<noteq> None)"

text \<open>
  \<open>split(sv, delimiter, keepEmpty)\<close> of the header: the loop cuts \<open>sv\<close> at every
  delimiter. \<open>split_loop\<close> walks the view with the field read so far (reversed) in
  \<open>cur\<close>; with \<open>keepEmpty\<close> every field is pushed, without it only the non-empty ones.
\<close>

fun split_loop :: "string \<Rightarrow> char \<Rightarrow> bool \<Rightarrow> string \<Rightarrow> string list" where
  "split_loop [] d keepEmpty cur = (if cur \<noteq> [] \<or> keepEmpty then [rev cur] else [])"
| "split_loop (c # cs) d keepEmpty cur =
     (if c = d then
        (if cur \<noteq> [] \<or> keepEmpty then rev cur # split_loop cs d keepEmpty []
         else split_loop cs d keepEmpty [])
      else split_loop cs d keepEmpty (c # cur))"

definition split :: "string \<Rightarrow> char \<Rightarrow> bool \<Rightarrow> string list" where
  "split sv delimiter keepEmpty = split_loop sv delimiter keepEmpty []"

section \<open>Time (utils/TimeUtils.cpp)\<close>

text \<open>
  A \<open>TimePoint\<close> that comes from a log line is built by \<open>from_time_t\<close>, so it is a whole
  number of seconds since the epoch: an \<open>int\<close>. \<open>std::mktime\<close> belongs to the C library;
  it is modelled for the time zone UTC, where it normalises out-of-range fields and
  counts the seconds of the proleptic Gregorian calendar.
\<close>

type_synonym TimePoint = int

definition days_from_civil :: "int \<Rightarrow> int \<Rightarrow> int \<Rightarrow> int" where
  "days_from_civil y m d =
     (let y' = (if m \<le> 2 then y - 1 else y);
          era = y' div 400;
          yoe = y' - era * 400;
          doy = (153 * (if m > 2 then m - 3 else m + 9) + 2) div 5 + d - 1;
          doe = yoe * 365 + yoe div 4 - yoe div 100 + doy
      in era * 146097 + doe - 719468)"

record tm =
  tm_year :: int
  tm_mon :: int
  tm_mday :: int
  tm_hour :: int
  tm_min :: int
  tm_sec :: int

definition mktime :: "tm \<Rightarrow> int" where
  "mktime t =
     (let y = tm_year t + 1900 + tm_mon t div 12;
          m = tm_mon t mod 12 + 1
      in (days_from_civil y m 1 + (tm_mday t - 1)) * 86400
           + tm_hour t * 3600 + tm_min t * 60 + tm_sec t)"

text \<open>\<open>parseIntField\<close>: \<open>None\<close> is the \<open>std::invalid_argument\<close> it throws.\<close>

fun parseIntField_loop :: "int \<Rightarrow> string \<Rightarrow> int option" where
  "parseIntField_loop v [] = Some v"
| "parseIntField_loop v (c # cs) =
     (if \<not> isdigit c then None
      else parseIntField_loop (v * 10 + (int (of_char c) - 48)) cs)"

definition parseIntField :: "string \<Rightarrow> int option" where
  "parseIntField sv = parseIntField_loop 0 sv"

definition parseTimestamp :: "string \<Rightarrow> TimePoint option" where
  "parseTimestamp sv =
     (if length sv < 19 then None
      else case (parseIntField (substr sv 0 4), parseIntField (substr sv 5 2),
                 parseIntField (substr sv 8 2), parseIntField (substr sv 11 2),
                 parseIntField (substr sv 14 2), parseIntField (substr sv 17 2)) of
        (Some year, Some month, Some day, Some hour, Some minute, Some sec) \<Rightarrow>
          (let t = mktime \<lparr>tm_year = year - 1900, tm_mon = month - 1, tm_mday = day,
                           tm_hour = hour, tm_min = minute, tm_sec = sec\<rparr>
           in if t = - 1 then None else Some t)
      | _ \<Rightarrow> None)"

definition diffSeconds :: "TimePoint \<Rightarrow> TimePoint \<Rightarrow> int" where
  "diffSeconds t0 t1 = t1 - t0"

section \<open>Log entries (core/LogEntry.hpp)\<close>

datatype LogLevel = Trace | Debug | Info | Warn | Error | Critical | Unknown

record LogEntry =
  timestamp :: TimePoint
  level :: LogLevel
  source :: "string option"
  message :: string
  rawLine :: "string option"

section \<open>The parser (input/LogParser.cpp)\<close>

text \<open>
  \<open>isReasonableTime\<close> is the helper of the anonymous namespace of LogParser.cpp. No
  function of the repository calls it.
\<close>

definition isReasonableTime :: "TimePoint \<Rightarrow> bool" where
  "isReasonableTime tp \<longleftrightarrow> tp \<ge> 946684800"

record ParseResult =
  entry :: "LogEntry option"
  wasJson :: bool
  malformed :: bool
  error :: string

definition default_patterns :: "string list" where
  "default_patterns =
     [''%timestamp% %level% %source%: %message%'',
      ''%timestamp% %level% %source% %message%'',
      [CHR 0x5C] @ ''[%timestamp%] %level%'' @ [CHR 0x5C] @ ''[%source%] %message%'',
      ''%timestamp% %level% %message%'']"

definition trimSv :: "string \<Rightarrow> string" where
  "trimSv s = rev (dropWhile isspace (rev (dropWhile isspace s)))"

definition extractTimestamp :: "string \<Rightarrow> TimePoint option" where
  "extractTimestamp line =
     (let prefix = ltrim line
      in if length prefix < 19 then None else parseTimestamp (substr prefix 0 19))"

definition levelMap :: "(string \<times> LogLevel) list" where
  "levelMap = [(''TRACE'', Trace), (''DEBUG'', Debug), (''INFO'', Info), (''WARN'', Warn),
               (''WARNING'', Warn), (''ERROR'', Error), (''FATAL'', Critical),
               (''CRITICAL'', Critical)]"

fun extractLevel_loop :: "string \<Rightarrow> (string \<times> LogLevel) list \<Rightarrow> LogLevel option" where
  "extractLevel_loop upperLine [] = Some Unknown"
| "extractLevel_loop upperLine ((levelStr, lvl) # rest) =
     (if contains upperLine levelStr then Some lvl else extractLevel_loop upperLine rest)"

definition extractLevel :: "string \<Rightarrow> LogLevel option" where
  "extractLevel line = extractLevel_loop (toUpper line) levelMap"

definition extractSource_brackets :: "string \<Rightarrow> string option" where
  "extractSource_brackets trimmed =
     (case find_char trimmed CHR ''['' of
        None \<Rightarrow> None
      | Some start \<Rightarrow>
          (case find_char_from trimmed CHR '']'' start of
             None \<Rightarrow> None
           | Some stop \<Rightarrow> Some (substr trimmed (start + 1) (stop - start - 1))))"

definition extractSource :: "string \<Rightarrow> string option" where
  "extractSource line =
     (let trimmed = trim line
      in case find_char trimmed CHR '':'' of
           Some colonPos \<Rightarrow>
             (let potentialSource = rtrim (substr trimmed 0 colonPos)
              in if find_char potentialSource CHR '' '' = None then Some potentialSource
                 else extractSource_brackets trimmed)
         | None \<Rightarrow> extractSource_brackets trimmed)"

text \<open>The words from the third on, joined by single spaces.\<close>

fun join_words :: "string list \<Rightarrow> string" where
  "join_words [] = []"
| "join_words [w] = w"
| "join_words (w # ws) = w @ '' '' @ join_words ws"

definition extractMessage :: "string \<Rightarrow> string option" where
  "extractMessage line =
     (let remaining = trim line;
          remaining = (if length remaining > 20 then drop 20 remaining else remaining);
          remaining = trim remaining;
          words = split remaining CHR '' '' True;
          message = (if length words > 2 then join_words (drop 2 words) else [])
      in if message = [] then None else Some message)"

definition tryParsePattern :: "string \<Rightarrow> string \<Rightarrow> LogEntry option" where
  "tryParsePattern line pattern =
     (case (extractTimestamp line, extractLevel line, extractMessage line) of
        (Some ts, Some lvl, Some msg) \<Rightarrow>
          Some \<lparr>timestamp = ts, level = lvl,
                source = Some (case extractSource line of Some s \<Rightarrow> s | None \<Rightarrow> ''unknown''),
                message = msg, rawLine = Some line\<rparr>
      | _ \<Rightarrow> None)"

text \<open>
  \<open>extractJsonRaw\<close>: the value that follows the first occurrence of the quoted key and
  the next colon. A string value is read up to its closing quote, a backslash keeping
  the byte after it; any other value is read up to a comma or a closing brace.
\<close>

fun read_json_string :: "string \<Rightarrow> string" where
  "read_json_string [] = []"
| "read_json_string [c] = (if c = CHR 0x5C \<or> c = CHR 0x22 then [] else [c])"
| "read_json_string (c # d # ds) =
     (if c = CHR 0x5C then d # read_json_string ds
      else if c = CHR 0x22 then []
      else c # read_json_string (d # ds))"

definition extractJsonRaw :: "string \<Rightarrow> string \<Rightarrow> string option" where
  "extractJsonRaw json key =
     (let needle = [CHR 0x22] @ key @ [CHR 0x22]
      in case find_str json needle of
           None \<Rightarrow> None
         | Some pos \<Rightarrow>
             (case find_char_from json CHR '':'' (pos + length needle) of
                None \<Rightarrow> None
              | Some colon \<Rightarrow>
                  (let rest = dropWhile isspace (drop (colon + 1) json)
                   in case rest of
                        [] \<Rightarrow> None
                      | c # cs \<Rightarrow>
                          if c = CHR 0x22 then Some (read_json_string cs)
                          else Some (trimSv (takeWhile (\<lambda>x. x \<noteq> CHR '','' \<and> x \<noteq> CHR ''}'') rest)))))"

definition extractJsonString :: "string \<Rightarrow> string \<Rightarrow> string option" where
  "extractJsonString json key = extractJsonRaw json key"

text \<open>\<open>a\<close> when it has a value, else \<open>b\<close>: the chains \<open>if (!x) x = ...\<close>.\<close>

definition or_else :: "'a option \<Rightarrow> 'a option \<Rightarrow> 'a option" where
  "or_else a b = (case a of Some x \<Rightarrow> Some x | None \<Rightarrow> b)"

definition json_timestamp :: "string \<Rightarrow> TimePoint option" where
  "json_timestamp tsv =
     (if length tsv \<ge> 19 then
        (case parseTimestamp (substr tsv 0 19) of
           Some p \<Rightarrow> Some p
         | None \<Rightarrow>
             parseTimestamp (map (\<lambda>c. if c = CHR ''T'' then CHR '' '' else c) (substr tsv 0 19)))
      else None)"

definition json_level :: "string \<Rightarrow> LogLevel" where
  "json_level upperLvl =
     (if find_str upperLvl ''TRACE'' \<noteq> None then Trace
      else if find_str upperLvl ''DEBUG'' \<noteq> None then Debug
      else if find_str upperLvl ''INFO'' \<noteq> None then Info
      else if find_str upperLvl ''WARN'' \<noteq> None then Warn
      else if find_str upperLvl ''ERROR'' \<noteq> None then Error
      else if find_str upperLvl ''CRIT'' \<noteq> None \<or> find_str upperLvl ''FATAL'' \<noteq> None
        then Critical
      else Unknown)"

text \<open>The result is the entry together with the text written to \<open>*errOut\<close>.\<close>

definition tryParseJsonLine :: "string \<Rightarrow> LogEntry option \<times> string" where
  "tryParseJsonLine line =
     (let tsStr = or_else (extractJsonString line ''timestamp'')
                    (or_else (extractJsonString line ''time'')
                       (extractJsonString line ''@timestamp''));
          lvlStr = or_else (extractJsonString line ''level'') (extractJsonString line ''severity'');
          msgStr = or_else (extractJsonString line ''message'') (extractJsonString line ''msg'');
          srcStr = or_else (extractJsonString line ''service'')
                     (or_else (extractJsonString line ''component'')
                        (extractJsonString line ''source''))
      in case (tsStr, lvlStr, msgStr) of
           (Some tsv, Some lvl, Some msg) \<Rightarrow>
             (case json_timestamp tsv of
                None \<Rightarrow> (None, ''Invalid timestamp format'')
              | Some ts \<Rightarrow>
                  (Some \<lparr>timestamp = ts, level = json_level (toUpper lvl),
                         source = (case srcStr of Some s \<Rightarrow> Some s | None \<Rightarrow> Some ''unknown''),
                         message = msg, rawLine = Some line\<rparr>, []))
         | _ \<Rightarrow>
             (None, ''JSON missing required fields:''
                @ (if tsStr \<noteq> None then [] else '' timestamp'')
                @ (if lvlStr \<noteq> None then [] else '' level'')
                @ (if msgStr \<noteq> None then [] else '' message'')))"

text \<open>The loop over \<open>m_patterns\<close>: the first pattern that yields an entry wins.\<close>

fun try_patterns :: "string \<Rightarrow> string list \<Rightarrow> LogEntry option" where
  "try_patterns trimmed [] = None"
| "try_patterns trimmed (pattern # rest) =
     (case tryParsePattern trimmed pattern of
        Some e \<Rightarrow> Some e
      | None \<Rightarrow> try_patterns trimmed rest)"

definition parseLineDetailed :: "string list \<Rightarrow> string \<Rightarrow> ParseResult" where
  "parseLineDetailed m_patterns raw =
     (let trimmed = trimSv raw
      in if trimmed = [] then
           \<lparr>entry = None, wasJson = False, malformed = True, error = ''Empty line''\<rparr>
         else if hd trimmed = CHR ''{'' then
           (case tryParseJsonLine trimmed of
              (Some e, err) \<Rightarrow> \<lparr>entry = Some e, wasJson = True, malformed = False, error = []\<rparr>
            | (None, err) \<Rightarrow>
                \<lparr>entry = None, wasJson = True, malformed = True,
                 error = (if err = [] then ''Failed to parse JSON log line'' else err)\<rparr>)
         else
           (case try_patterns trimmed m_patterns of
              Some e \<Rightarrow> \<lparr>entry = Some e, wasJson = False, malformed = False, error = []\<rparr>
            | None \<Rightarrow>
                \<lparr>entry = None, wasJson = False, malformed = True,
                 error = ''No matching pattern''\<rparr>))"

definition parseLine :: "string list \<Rightarrow> string \<Rightarrow> LogEntry option" where
  "parseLine m_patterns raw = entry (parseLineDetailed m_patterns raw)"

section \<open>SpikeDetector (anomaly/SpikeDetector.cpp)\<close>

text \<open>
  A \<open>double\<close> is modelled by a \<open>real\<close>: the comparisons and the quotients are those
  of the source, computed exactly. A \<open>std::size_t\<close> counter is a \<open>nat\<close>. A counter is
  decremented only after a pop from the deque it counts (it equals the length of that
  deque, lemma \<open>spike_run_counts\<close>), so the decrement never wraps; the difference of two
  counters in \<open>calculateStats\<close> can, and there the wrap-around modulo \<open>2 ^ 64\<close> is
  written out.
  The description of an anomaly is text printed from numbers; the model keeps the
  numbers it is printed from.
\<close>

definition size_t_sub :: "nat \<Rightarrow> nat \<Rightarrow> nat" where
  "size_t_sub a b = (a + 2 ^ 64 - b mod 2 ^ 64) mod 2 ^ 64"

record SpikeStats =
  stats_currentCount :: nat
  stats_baselineCount :: nat
  stats_spikeRatio :: real
  stats_rateOfChange :: real
  stats_windowStart :: TimePoint
  stats_windowEnd :: TimePoint
  stats_source :: string

record SpikeAnomaly =
  sa_description :: "string \<times> nat \<times> int \<times> real \<times> real"
  sa_severity :: real
  sa_stats :: SpikeStats
  sa_sampleEvents :: "LogEntry list"

record SourceState =
  recentEvents :: "TimePoint list"
  currentCount :: nat
  baselineEvents :: "TimePoint list"
  baselineCount :: nat
  previousCount :: nat
  samples :: "LogEntry list"
  lastWindowAdvance :: TimePoint

definition SourceState_default :: SourceState where
  "SourceState_default =
     \<lparr>recentEvents = [], currentCount = 0, baselineEvents = [], baselineCount = 0,
      previousCount = 0, samples = [], lastWindowAdvance = 0\<rparr>"

record SpikeDetector =
  m_sourceStates :: "string \<rightharpoonup> SourceState"
  m_spikeThreshold :: real
  m_shortWindow :: int
  m_baselineWindow :: int
  m_maxSampleEvents :: nat

definition SpikeDetector_init :: SpikeDetector where
  "SpikeDetector_init =
     \<lparr>m_sourceStates = Map.empty, m_spikeThreshold = 3, m_shortWindow = 60,
      m_baselineWindow = 600, m_maxSampleEvents = 5\<rparr>"

definition setSpikeThreshold :: "SpikeDetector \<Rightarrow> real \<Rightarrow> SpikeDetector" where
  "setSpikeThreshold det ratio = det\<lparr>m_spikeThreshold := max (11 / 10) ratio\<rparr>"

definition setShortWindow :: "SpikeDetector \<Rightarrow> int \<Rightarrow> SpikeDetector" where
  "setShortWindow det duration = det\<lparr>m_shortWindow := duration\<rparr>"

definition setBaselineWindow :: "SpikeDetector \<Rightarrow> int \<Rightarrow> SpikeDetector" where
  "setBaselineWindow det duration = det\<lparr>m_baselineWindow := duration\<rparr>"

definition setMaxSampleEvents :: "SpikeDetector \<Rightarrow> nat \<Rightarrow> SpikeDetector" where
  "setMaxSampleEvents det n = det\<lparr>m_maxSampleEvents := max 1 n\<rparr>"

definition spike_reset :: "SpikeDetector \<Rightarrow> SpikeDetector" where
  "spike_reset det = det\<lparr>m_sourceStates := Map.empty\<rparr>"

definition calculateStats :: "SpikeDetector \<Rightarrow> SourceState \<Rightarrow> string \<Rightarrow> TimePoint \<Rightarrow> SpikeStats" where
  "calculateStats det state src now =
     (let currentRate = real (currentCount state) / real_of_int (m_shortWindow det);
          baselineRate = real (baselineCount state) / real_of_int (m_baselineWindow det)
      in \<lparr>stats_currentCount = currentCount state,
          stats_baselineCount = (if baselineCount state \<noteq> 0 then baselineCount state else 1),
          stats_spikeRatio = (if baselineRate > 0 then currentRate / baselineRate else 1),
          stats_rateOfChange =
            (if previousCount state > 0
             then real (size_t_sub (currentCount state) (previousCount state))
                    / real (previousCount state)
             else 0),
          stats_windowStart = now - m_shortWindow det,
          stats_windowEnd = now,
          stats_source = src\<rparr>)"

definition isSpike :: "SpikeDetector \<Rightarrow> SpikeStats \<Rightarrow> bool" where
  "isSpike det stats \<longleftrightarrow>
     stats_spikeRatio stats > m_spikeThreshold det \<and> stats_currentCount stats \<ge> 5
       \<and> stats_baselineCount stats \<ge> 10"

definition createAnomaly :: "SpikeDetector \<Rightarrow> SpikeStats \<Rightarrow> LogEntry list \<Rightarrow> SpikeAnomaly" where
  "createAnomaly det stats smp =
     \<lparr>sa_description = (stats_source stats, stats_currentCount stats, m_shortWindow det,
                         stats_spikeRatio stats, stats_rateOfChange stats),
      sa_severity = min 1 ((stats_spikeRatio stats - 1) / (m_spikeThreshold det - 1)),
      sa_stats = stats,
      sa_sampleEvents = smp\<rparr>"

text \<open>
  The eviction loops: pop the front while it is older than the window, the counter
  following the deque.
\<close>

fun evict :: "TimePoint \<Rightarrow> int \<Rightarrow> TimePoint list \<Rightarrow> nat \<Rightarrow> TimePoint list \<times> nat" where
  "evict now w [] n = ([], n)"
| "evict now w (t0 # ts) n =
     (if diffSeconds t0 now > w then evict now w ts (n - 1) else (t0 # ts, n))"

definition spike_update :: "SpikeDetector \<Rightarrow> SourceState \<Rightarrow> LogEntry \<Rightarrow> SourceState" where
  "spike_update det state0 e =
     (let nowTime = timestamp e;
          (recent, cur) = evict nowTime (m_shortWindow det)
                            (recentEvents state0 @ [nowTime]) (currentCount state0 + 1);
          (baseline, base) = evict nowTime (m_baselineWindow det)
                            (baselineEvents state0 @ [nowTime]) (baselineCount state0 + 1);
          smp = samples state0 @ [e];
          smp = (if length smp > m_maxSampleEvents det then tl smp else smp)
      in state0\<lparr>recentEvents := recent, currentCount := cur,
                baselineEvents := baseline, baselineCount := base, samples := smp\<rparr>)"

definition spike_processEntry :: "SpikeDetector \<Rightarrow> LogEntry \<Rightarrow> SpikeAnomaly list \<times> SpikeDetector" where
  "spike_processEntry det e =
     (case source e of
        None \<Rightarrow> ([], det)
      | Some src \<Rightarrow>
          if src = [] then ([], det)
          else
            (let state0 = (case m_sourceStates det src of
                             Some s \<Rightarrow> s | None \<Rightarrow> SourceState_default);
                 state = spike_update det state0 e;
                 stats = calculateStats det state src (timestamp e)
             in ((if isSpike det stats then [createAnomaly det stats (samples state)] else []),
                 det\<lparr>m_sourceStates := (m_sourceStates det)(src \<mapsto> state)\<rparr>)))"

text \<open>What a host can do to a detector: configure it, reset it, feed it an entry.\<close>

datatype spike_op =
    SetSpikeThreshold real
  | SetShortWindow int
  | SetBaselineWindow int
  | SetMaxSampleEvents nat
  | SpikeReset
  | SpikeProcess LogEntry

fun spike_apply :: "SpikeDetector \<Rightarrow> spike_op \<Rightarrow> SpikeDetector" where
  "spike_apply det (SetSpikeThreshold v) = setSpikeThreshold det v"
| "spike_apply det (SetShortWindow d) = setShortWindow det d"
| "spike_apply det (SetBaselineWindow d) = setBaselineWindow det d"
| "spike_apply det (SetMaxSampleEvents n) = setMaxSampleEvents det n"
| "spike_apply det SpikeReset = spike_reset det"
| "spike_apply det (SpikeProcess e) = snd (spike_processEntry det e)"

definition spike_run :: "spike_op list \<Rightarrow> SpikeDetector" where
  "spike_run ops = foldl spike_apply SpikeDetector_init ops"






section \<open>BurstPatternDetector (anomaly/BurstPatternDetector.cpp)\<close>

text \<open>
  The two \<open>std::regex_replace\<close> calls of \<open>normalizeMessage\<close>, for their fixed patterns.
  \<open>[0-9a-f]{8,}\<close> is greedy, so it matches a whole run of hexadecimal digits when the
  run has at least 8 of them, and nothing inside a shorter run. \<open>\b\d+\b\<close> matches a run
  of digits exactly when it is a whole word: a word boundary lies only between a word
  character (letter, digit, underscore) and a character that is none, or an end of the
  string. Both loops read the string once, with the run read so far (reversed) in \<open>run\<close>.
\<close>

definition ishex :: "char \<Rightarrow> bool" where
  "ishex c \<longleftrightarrow> c \<in> set ''0123456789abcdefABCDEF''"

definition isword :: "char \<Rightarrow> bool" where
  "isword c \<longleftrightarrow>
     c \<in> set ''0123456789abcdefghijklmnopqrstuvwxyzABCDEFGHIJKLMNOPQRSTUVWXYZ_''"

definition flush_hex :: "string \<Rightarrow> string" where
  "flush_hex run = (if length run \<ge> 8 then ''<id>'' else rev run)"

fun replace_uuidLike :: "string \<Rightarrow> string \<Rightarrow> string" where
  "replace_uuidLike [] run = flush_hex run"
| "replace_uuidLike (c # cs) run =
     (if ishex c then replace_uuidLike cs (c # run)
      else flush_hex run @ c # replace_uuidLike cs [])"

definition flush_word :: "string \<Rightarrow> string" where
  "flush_word run = (if run \<noteq> [] \<and> list_all isdigit run then ''<n>'' else rev run)"

fun replace_numbers :: "string \<Rightarrow> string \<Rightarrow> string" where
  "replace_numbers [] run = flush_word run"
| "replace_numbers (c # cs) run =
     (if isword c then replace_numbers cs (c # run)
      else flush_word run @ c # replace_numbers cs [])"

fun collapse_ws :: "string \<Rightarrow> bool \<Rightarrow> string" where
  "collapse_ws [] inWs = []"
| "collapse_ws (c # cs) inWs =
     (if isspace c then (if \<not> inWs then CHR '' '' # collapse_ws cs True else collapse_ws cs True)
      else c # collapse_ws cs False)"

definition normalizeMessage :: "string \<Rightarrow> string" where
  "normalizeMessage msg =
     (let s = map tolower msg;
          s = replace_uuidLike s [];
          s = replace_numbers s [];
          out = collapse_ws s False;
          out = dropWhile (\<lambda>c. c = CHR '' '') out
      in rev (dropWhile (\<lambda>c. c = CHR '' '') (rev out)))"

fun level_ordinal :: "LogLevel \<Rightarrow> string" where
  "level_ordinal Trace = ''0''"
| "level_ordinal Debug = ''1''"
| "level_ordinal Info = ''2''"
| "level_ordinal Warn = ''3''"
| "level_ordinal Error = ''4''"
| "level_ordinal Critical = ''5''"
| "level_ordinal Unknown = ''6''"

definition signature :: "LogEntry \<Rightarrow> string" where
  "signature e =
     (case source e of Some s \<Rightarrow> s | None \<Rightarrow> ''unknown'') @ ''|'' @ level_ordinal (level e)
       @ ''|'' @ normalizeMessage (message e)"

text \<open>
  A burst. Its description is printed from the count and the window; the model keeps
  both. \<open>front()\<close> and \<open>back()\<close> of an empty deque have no value: \<open>None\<close>.
\<close>

record Burst =
  b_key :: string
  b_description :: "nat \<times> int"
  b_score :: real
  b_level :: LogLevel
  b_source :: "string option"
  b_windowStart :: "TimePoint option"
  b_windowEnd :: "TimePoint option"
  b_samples :: "LogEntry list"

record BurstPatternDetector =
  m_states :: "string \<rightharpoonup> (TimePoint \<times> LogEntry) list"
  m_window :: int
  m_minRepeats :: nat
  m_maxSamples :: nat

definition BurstPatternDetector_init :: BurstPatternDetector where
  "BurstPatternDetector_init =
     \<lparr>m_states = Map.empty, m_window = 60, m_minRepeats = 20, m_maxSamples = 5\<rparr>"

fun evictOld :: "int \<Rightarrow> (TimePoint \<times> LogEntry) list \<Rightarrow> TimePoint \<Rightarrow> (TimePoint \<times> LogEntry) list" where
  "evictOld w [] now = []"
| "evictOld w (ev # evs) now = (if now - fst ev \<le> w then ev # evs else evictOld w evs now)"

definition front_time :: "(TimePoint \<times> LogEntry) list \<Rightarrow> TimePoint option" where
  "front_time evs = (case evs of [] \<Rightarrow> None | ev # _ \<Rightarrow> Some (fst ev))"

definition back_time :: "(TimePoint \<times> LogEntry) list \<Rightarrow> TimePoint option" where
  "back_time evs = (case rev evs of [] \<Rightarrow> None | ev # _ \<Rightarrow> Some (fst ev))"

definition burst_processEntry :: "BurstPatternDetector \<Rightarrow> LogEntry \<Rightarrow> Burst list \<times> BurstPatternDetector" where
  "burst_processEntry det e =
     (let now = timestamp e;
          key = signature e;
          events0 = (case m_states det key of Some evs \<Rightarrow> evs | None \<Rightarrow> []);
          events = evictOld (m_window det) (events0 @ [(now, e)]) now;
          c = length events
      in if c \<ge> m_minRepeats det then
           (let b = \<lparr>b_key = key, b_description = (c, m_window det), b_score = real c,
                     b_level = level e, b_source = source e,
                     b_windowStart = front_time events, b_windowEnd = back_time events,
                     b_samples = map snd (drop (if c > m_maxSamples det
                                                then c - m_maxSamples det else 0) events)\<rparr>;
                keep = max 1 (m_minRepeats det div 2);
                events' = (if length events > m_minRepeats det
                           then drop (length events - keep) events else events)
            in ([b], det\<lparr>m_states := (m_states det)(key \<mapsto> events')\<rparr>))
         else ([], det\<lparr>m_states := (m_states det)(key \<mapsto> events)\<rparr>))"

text \<open>The bursts emitted entry by entry over a stream.\<close>

fun burst_trace :: "BurstPatternDetector \<Rightarrow> LogEntry list \<Rightarrow> Burst list list" where
  "burst_trace det [] = []"
| "burst_trace det (e # es) =
     fst (burst_processEntry det e) # burst_trace (snd (burst_processEntry det e)) es"

definition cache_miss_entry :: LogEntry where
  "cache_miss_entry = \<lparr>timestamp = 1704067200, level = Info, source = Some ''svc2'',
                        message = ''cache miss for user 42'', rawLine = None\<rparr>"

section \<open>IpFrequencyDetector (anomaly/IpFrequencyDetector.cpp)\<close>

text \<open>
  \<open>extractIp\<close> searches for the first match of \<open>\b\d{1,3}(?:\.\d{1,3}){3}\b\<close>. A
  match starts at a word boundary; each of the first three groups of digits is followed
  by a dot, so it is the whole run of digits there and has at most 3 of them; the last
  group ends at a word boundary, so it is again a whole run of at most 3 digits and no
  word character follows it.
\<close>

definition take_octet :: "string \<Rightarrow> (string \<times> string) option" where
  "take_octet s =
     (let ds = takeWhile isdigit s
      in if 1 \<le> length ds \<and> length ds \<le> 3 then Some (ds, dropWhile isdigit s) else None)"

definition dotted_octet :: "string \<Rightarrow> (string \<times> string) option" where
  "dotted_octet s =
     (case take_octet s of
        None \<Rightarrow> None
      | Some (ds, r) \<Rightarrow>
          (case r of
             [] \<Rightarrow> None
           | c # r' \<Rightarrow> if c = CHR ''.'' then Some (ds, r') else None))"

definition match_ip_at :: "string \<Rightarrow> string option" where
  "match_ip_at s =
     (case dotted_octet s of
        None \<Rightarrow> None
      | Some (o1, r1) \<Rightarrow>
     (case dotted_octet r1 of
        None \<Rightarrow> None
      | Some (o2, r2) \<Rightarrow>
     (case dotted_octet r2 of
        None \<Rightarrow> None
      | Some (o3, r3) \<Rightarrow>
     (case take_octet r3 of
        None \<Rightarrow> None
      | Some (o4, r4) \<Rightarrow>
          if r4 = [] \<or> \<not> isword (hd r4)
          then Some (o1 @ ''.'' @ o2 @ ''.'' @ o3 @ ''.'' @ o4) else None))))"

fun extractIp_loop :: "bool \<Rightarrow> string \<Rightarrow> string option" where
  "extractIp_loop prev_is_word [] = None"
| "extractIp_loop prev_is_word (c # cs) =
     (case (if prev_is_word then None else match_ip_at (c # cs)) of
        Some ip \<Rightarrow> Some ip
      | None \<Rightarrow> extractIp_loop (isword c) cs)"

definition extractIp :: "string \<Rightarrow> string option" where
  "extractIp msg = extractIp_loop False msg"

record IpHit =
  hit_ip :: string
  hit_count :: nat
  hit_entry :: LogEntry

record IpFrequencyDetector =
  m_counts :: "string \<rightharpoonup> nat"
  m_maxCountForRare :: nat

definition IpFrequencyDetector_init :: IpFrequencyDetector where
  "IpFrequencyDetector_init = \<lparr>m_counts = Map.empty, m_maxCountForRare = 5\<rparr>"

definition setMaxCountForRare :: "IpFrequencyDetector \<Rightarrow> nat \<Rightarrow> IpFrequencyDetector" where
  "setMaxCountForRare det v = det\<lparr>m_maxCountForRare := v\<rparr>"

text \<open>The counter of an address; an address never seen counts 0, as \<open>m_counts[ip]\<close> makes it.\<close>

definition ip_count :: "IpFrequencyDetector \<Rightarrow> string \<Rightarrow> nat" where
  "ip_count det ip = (case m_counts det ip of Some n \<Rightarrow> n | None \<Rightarrow> 0)"

definition ip_processEntry :: "IpFrequencyDetector \<Rightarrow> LogEntry \<Rightarrow> IpHit list \<times> IpFrequencyDetector" where
  "ip_processEntry det e =
     (case extractIp (message e) of
        None \<Rightarrow> ([], det)
      | Some ip \<Rightarrow>
          (let newCount = ip_count det ip + 1
           in ((if newCount \<le> m_maxCountForRare det
                then [\<lparr>hit_ip = ip, hit_count = newCount, hit_entry = e\<rparr>] else []),
               det\<lparr>m_counts := (m_counts det)(ip \<mapsto> newCount)\<rparr>)))"

text \<open>All hits emitted over a stream, in order.\<close>

fun ip_run :: "IpFrequencyDetector \<Rightarrow> LogEntry list \<Rightarrow> IpHit list" where
  "ip_run det [] = []"
| "ip_run det (e # es) = fst (ip_processEntry det e) @ ip_run (snd (ip_processEntry det e)) es"

definition ip_entry :: "string \<Rightarrow> LogEntry" where
  "ip_entry addr = \<lparr>timestamp = 1704067200, level = Info, source = Some ''sshd'',
                     message = ''login from '' @ addr, rawLine = None\<rparr>"

text \<open>The scenario: 1000 lines, the 5 of address 10.0.0.7 spread among 995 of 10.0.0.1.\<close>

definition rare_ip_stream :: "LogEntry list" where
  "rare_ip_stream =
     concat (replicate 5 (replicate 199 (ip_entry ''10.0.0.1'') @ [ip_entry ''10.0.0.7'']))"

text \<open>
  The length of the deque of one signature while the same entry arrives again and again
  (time standing still, so that nothing is evicted): \<open>burst_next_len\<close> is the length
  after one more entry, \<open>burst_counts\<close> the counts \<open>c\<close> emitted over \<open>k\<close> more entries.
\<close>

definition burst_next_len :: "nat \<Rightarrow> nat \<Rightarrow> nat" where
  "burst_next_len minRepeats n =
     (let c = n + 1
      in if c \<ge> minRepeats \<and> c > minRepeats then c - (c - max 1 (minRepeats div 2)) else c)"

fun burst_counts :: "nat \<Rightarrow> nat \<Rightarrow> nat \<Rightarrow> nat list list" where
  "burst_counts minRepeats n 0 = []"
| "burst_counts minRepeats n (Suc k) =
     (if n + 1 \<ge> minRepeats then [n + 1] else [])
       # burst_counts minRepeats (burst_next_len minRepeats n) k"

definition burst_deque :: "BurstPatternDetector \<Rightarrow> LogEntry \<Rightarrow> (TimePoint \<times> LogEntry) list" where
  "burst_deque det e = (case m_states det (signature e) of Some evs \<Rightarrow> evs | None \<Rightarrow> [])"

section \<open>TimeWindowAnalyzer (analysis/TimeWindowAnalyzer.cpp)\<close>

record TimedEvent =
  te_timestamp :: TimePoint
  te_level :: LogLevel
  te_source :: string

record TimeBucket =
  bk_start :: TimePoint
  bk_end :: TimePoint
  bk_events :: "TimedEvent list"
  bk_sourceCounts :: "string \<rightharpoonup> nat"

record WindowStats =
  ws_totalEvents :: nat
  ws_errorEvents :: nat
  ws_errorRate :: real
  ws_eventsBySource :: "string \<rightharpoonup> nat"
  ws_windowStart :: TimePoint
  ws_windowEnd :: TimePoint

definition WindowStats_default :: WindowStats where
  "WindowStats_default =
     \<lparr>ws_totalEvents = 0, ws_errorEvents = 0, ws_errorRate = 0, ws_eventsBySource = Map.empty,
      ws_windowStart = 0, ws_windowEnd = 0\<rparr>"

text \<open>
  The description of an analyzer anomaly is printed text; the model keeps which of the
  three texts it is and the numbers printed into it. The driver only asks whether the
  text contains \<open>Silence\<close>, which the text \<open>Silence detected: ...\<close> does and the texts
  \<open>Error spike: ...\<close>, \<open>Event burst: ...\<close> and the empty text do not.
\<close>

datatype tw_description =
    NoDescription
  | ErrorSpikeText real TimePoint TimePoint
  | EventBurstText nat int
  | SilenceText int

fun contains_Silence :: "tw_description \<Rightarrow> bool" where
  "contains_Silence (SilenceText gap) = True"
| "contains_Silence d = False"

record tw_Anomaly =
  tw_description :: tw_description
  tw_score :: real
  tw_stats :: WindowStats

text \<open>
  \<open>Anomaly anomaly;\<close> leaves \<open>score\<close> without a value (the struct gives it no
  initialiser). \<open>indet\<close> is whatever the program then reads there.
\<close>

definition tw_Anomaly_uninit :: "real \<Rightarrow> tw_Anomaly" where
  "tw_Anomaly_uninit indet =
     \<lparr>tw_description = NoDescription, tw_score = indet, tw_stats = WindowStats_default\<rparr>"

record TimeWindowAnalyzer =
  m_currentWindow :: TimeBucket
  m_windowHistory :: "TimeBucket list"
  m_initialized :: bool
  m_windowSize :: int
  m_errorRateThreshold :: real
  m_burstThreshold :: nat
  m_silenceThreshold :: int
  m_maxHistoryWindows :: nat

definition TimeWindowAnalyzer_init :: TimeWindowAnalyzer where
  "TimeWindowAnalyzer_init =
     \<lparr>m_currentWindow = \<lparr>bk_start = 0, bk_end = 0, bk_events = [], bk_sourceCounts = Map.empty\<rparr>,
      m_windowHistory = [], m_initialized = False, m_windowSize = 60,
      m_errorRateThreshold = 1 / 2, m_burstThreshold = 100, m_silenceThreshold = 300,
      m_maxHistoryWindows = 12\<rparr>"

definition push_history :: "nat \<Rightarrow> TimeBucket list \<Rightarrow> TimeBucket \<Rightarrow> TimeBucket list" where
  "push_history maxHistory hist b =
     (let h = hist @ [b] in if length h > maxHistory then tl h else h)"

text \<open>
  The loop \<open>while (ts >= m_currentWindow.end)\<close>. With a window size that is not positive
  the end never passes \<open>ts\<close> and the loop does not return: \<open>None\<close>.
\<close>

function advance_windows ::
  "int \<Rightarrow> nat \<Rightarrow> TimePoint \<Rightarrow> TimeBucket \<Rightarrow> TimeBucket list \<Rightarrow> (TimeBucket \<times> TimeBucket list) option" where
  "advance_windows wsize maxHistory ts cur hist =
     (if ts \<ge> bk_end cur then
        (if wsize \<le> 0 then None
         else advance_windows wsize maxHistory ts
                \<lparr>bk_start = bk_end cur, bk_end = bk_end cur + wsize, bk_events = [],
                 bk_sourceCounts = Map.empty\<rparr>
                (push_history maxHistory hist cur))
      else Some (cur, hist))"
  by pat_completeness auto
termination
  by (relation "measure (\<lambda>(wsize, maxHistory, ts, cur, hist). nat (ts - bk_end cur + 1))") auto

declare advance_windows.simps [simp del]

definition count_of :: "(string \<rightharpoonup> nat) \<Rightarrow> string \<Rightarrow> nat" where
  "count_of m k = (case m k of Some n \<Rightarrow> n | None \<Rightarrow> 0)"

fun evictOldEvents_loop :: "TimePoint \<Rightarrow> TimedEvent list \<Rightarrow> (string \<rightharpoonup> nat) \<Rightarrow> TimedEvent list \<times> (string \<rightharpoonup> nat)" where
  "evictOldEvents_loop start [] counts = ([], counts)"
| "evictOldEvents_loop start (ev # evs) counts =
     (if te_timestamp ev < start then
        (let n = size_t_sub (count_of counts (te_source ev)) 1
         in evictOldEvents_loop start evs
              (if n = 0 then counts(te_source ev := None) else counts(te_source ev \<mapsto> n)))
      else (ev # evs, counts))"

definition evictOldEvents :: "TimeBucket \<Rightarrow> TimeBucket" where
  "evictOldEvents bucket =
     (case evictOldEvents_loop (bk_start bucket) (bk_events bucket) (bk_sourceCounts bucket) of
        (evs, counts) \<Rightarrow> bucket\<lparr>bk_events := evs, bk_sourceCounts := counts\<rparr>)"

definition addEventUnlocked :: "TimeWindowAnalyzer \<Rightarrow> LogEntry \<Rightarrow> TimeWindowAnalyzer option" where
  "addEventUnlocked an e =
     (let ts = timestamp e;
          cur0 = (if \<not> m_initialized an
                  then (m_currentWindow an)\<lparr>bk_start := ts, bk_end := ts + m_windowSize an\<rparr>
                  else m_currentWindow an)
      in case advance_windows (m_windowSize an) (m_maxHistoryWindows an) ts cur0
                (m_windowHistory an) of
           None \<Rightarrow> None
         | Some (cur, hist) \<Rightarrow>
             (let an1 = an\<lparr>m_currentWindow := cur, m_windowHistory := hist, m_initialized := True\<rparr>
              in if ts < bk_start cur then Some an1
                 else
                   (let src = (case source e of Some s \<Rightarrow> s | None \<Rightarrow> []);
                        timedEvent = \<lparr>te_timestamp = timestamp e, te_level = level e,
                                       te_source = src\<rparr>;
                        cur1 = cur\<lparr>bk_events := bk_events cur @ [timedEvent],
                                   bk_sourceCounts := (bk_sourceCounts cur)
                                      (src \<mapsto> count_of (bk_sourceCounts cur) src + 1)\<rparr>
                    in Some (an1\<lparr>m_currentWindow := evictOldEvents cur1\<rparr>))))"

definition addEntry :: "TimeWindowAnalyzer \<Rightarrow> LogEntry \<Rightarrow> TimeWindowAnalyzer option" where
  "addEntry an e = addEventUnlocked an e"

fun tw_run :: "TimeWindowAnalyzer \<Rightarrow> LogEntry list \<Rightarrow> TimeWindowAnalyzer option" where
  "tw_run an [] = Some an"
| "tw_run an (e # es) = (case addEntry an e of None \<Rightarrow> None | Some an' \<Rightarrow> tw_run an' es)"

definition tw_calculateStats :: "TimeBucket \<Rightarrow> WindowStats" where
  "tw_calculateStats bucket =
     (let total = length (bk_events bucket);
          errorCount = length (filter (\<lambda>ev. te_level ev = Error \<or> te_level ev = Critical)
                                  (bk_events bucket))
      in \<lparr>ws_totalEvents = total, ws_errorEvents = errorCount,
          ws_errorRate = (if total > 0 then real errorCount / real total else 0),
          ws_eventsBySource = bk_sourceCounts bucket,
          ws_windowStart = bk_start bucket, ws_windowEnd = bk_end bucket\<rparr>)"

definition checkErrorSpike :: "TimeWindowAnalyzer \<Rightarrow> TimeBucket \<Rightarrow> real \<Rightarrow> tw_Anomaly" where
  "checkErrorSpike an bucket indet =
     (let stats = tw_calculateStats bucket
      in if ws_errorRate stats > m_errorRateThreshold an then
           \<lparr>tw_description = ErrorSpikeText (ws_errorRate stats * 100) (ws_windowStart stats)
                                (ws_windowEnd stats),
            tw_score = min 1 (ws_errorRate stats * 2), tw_stats = stats\<rparr>
         else tw_Anomaly_uninit indet)"

text \<open>
  In \<open>double\<close> a positive number divided by zero is infinite, so the minimum with 1 is 1;
  the cases of a zero threshold are written out.
\<close>

definition checkBurst :: "TimeWindowAnalyzer \<Rightarrow> TimeBucket \<Rightarrow> real \<Rightarrow> tw_Anomaly" where
  "checkBurst an bucket indet =
     (let stats = tw_calculateStats bucket
      in if ws_totalEvents stats > m_burstThreshold an then
           \<lparr>tw_description = EventBurstText (ws_totalEvents stats) (m_windowSize an),
            tw_score = (if m_burstThreshold an = 0 then 1
                        else min 1 (real (ws_totalEvents stats) / real (m_burstThreshold an))),
            tw_stats = stats\<rparr>
         else tw_Anomaly_uninit indet)"

definition checkSilence :: "TimeWindowAnalyzer \<Rightarrow> TimeBucket \<Rightarrow> real \<Rightarrow> tw_Anomaly" where
  "checkSilence an bucket indet =
     (if m_windowHistory an \<noteq> [] then
        (let prevEnd = bk_end (last (m_windowHistory an));
             gap = diffSeconds prevEnd (bk_start bucket)
         in if gap > m_silenceThreshold an then
              \<lparr>tw_description = SilenceText gap,
               tw_score = (if m_silenceThreshold an = 0 then 1
                           else min 1 (real_of_int gap / real_of_int (m_silenceThreshold an))),
               tw_stats = WindowStats_default\<rparr>
            else tw_Anomaly_uninit indet)
      else tw_Anomaly_uninit indet)"

text \<open>
  \<open>detectAnomalies\<close> keeps the anomalies whose score is positive. \<open>indet k\<close> is the
  value read from the score of the \<open>k\<close>-th anomaly object when no check wrote it.
\<close>

definition keep_positive :: "tw_Anomaly \<Rightarrow> tw_Anomaly list" where
  "keep_positive a = (if tw_score a > 0 then [a] else [])"

fun check_history :: "TimeWindowAnalyzer \<Rightarrow> TimeBucket list \<Rightarrow> (nat \<Rightarrow> real) \<Rightarrow> nat \<Rightarrow> tw_Anomaly list" where
  "check_history an [] indet k = []"
| "check_history an (w # ws) indet k =
     keep_positive (checkErrorSpike an w (indet k))
       @ keep_positive (checkBurst an w (indet (k + 1)))
       @ check_history an ws indet (k + 2)"

definition detectAnomalies :: "TimeWindowAnalyzer \<Rightarrow> (nat \<Rightarrow> real) \<Rightarrow> tw_Anomaly list" where
  "detectAnomalies an indet =
     keep_positive (checkErrorSpike an (m_currentWindow an) (indet 0))
       @ keep_positive (checkBurst an (m_currentWindow an) (indet 1))
       @ check_history an (m_windowHistory an) indet 2
       @ (if m_windowHistory an \<noteq> []
          then keep_positive (checkSilence an (m_currentWindow an)
                                (indet (2 + 2 * length (m_windowHistory an))))
          else [])"

text \<open>
  The scenario of the silence: 5 entries at 2024-01-01 00:00:00 to 00:00:04 and, after
  a gap, 5 entries at 00:10:00 to 00:10:04.
\<close>

definition silence_entry :: "TimePoint \<Rightarrow> LogEntry" where
  "silence_entry t = \<lparr>timestamp = t, level = Info, source = Some ''svc1'',
                       message = ''heartbeat ok'', rawLine = None\<rparr>"

definition silence_stream :: "LogEntry list" where
  "silence_stream =
     map silence_entry [1704067200, 1704067201, 1704067202, 1704067203, 1704067204,
                        1704067800, 1704067801, 1704067802, 1704067803, 1704067804]"

text \<open>
  What every analyzer fed by \<open>addEntry\<close> alone satisfies: a history that is not empty
  belongs to an initialised analyzer, and its newest bucket ends where the current
  bucket starts.
\<close>

definition tw_adjacent :: "TimeWindowAnalyzer \<Rightarrow> bool" where
  "tw_adjacent an \<longleftrightarrow>
     m_windowHistory an = []
     \<or> (m_initialized an
          \<and> bk_end (last (m_windowHistory an)) = bk_start (m_currentWindow an))"

section \<open>Anomalies and reports (core/Anomaly.hpp, core/Report.hpp)\<close>

datatype AnomalyType =
  FrequencySpike | RarePattern | StatisticalOutlier | SequenceViolation | Silence | Other

text \<open>
  The severities \<open>Low < Medium < High < Critical\<close>; the names carry a prefix because
  \<open>Critical\<close> is a log level already.
\<close>

datatype AnomalySeverity = SevLow | SevMedium | SevHigh | SevCritical

fun severity_ordinal :: "AnomalySeverity \<Rightarrow> int" where
  "severity_ordinal SevLow = 0"
| "severity_ordinal SevMedium = 1"
| "severity_ordinal SevHigh = 2"
| "severity_ordinal SevCritical = 3"

record Anomaly =
  a_type :: AnomalyType
  a_severity :: AnomalySeverity
  a_windowStart :: TimePoint
  a_windowEnd :: TimePoint
  a_score :: real
  a_description :: string
  a_source :: "string option"
  a_relatedEntries :: "LogEntry list"

record LevelStats =
  ls_count :: nat
  ls_anomalyCount :: nat

record SourceStats =
  st_totalEvents :: nat
  st_errorEvents :: nat
  st_warningEvents :: nat

record Report =
  r_analysisStart :: TimePoint
  r_analysisEnd :: TimePoint
  r_totalEntries :: nat
  r_processedFile :: "string option"
  r_anomalies :: "Anomaly list"
  r_levelStats :: "LogLevel \<rightharpoonup> LevelStats"
  r_sourceStats :: "string \<rightharpoonup> SourceStats"

definition Report_empty :: Report where
  "Report_empty =
     \<lparr>r_analysisStart = 0, r_analysisEnd = 0, r_totalEntries = 0, r_processedFile = None,
      r_anomalies = [], r_levelStats = Map.empty, r_sourceStats = Map.empty\<rparr>"




section \<open>ReportGenerator (report/ReportGenerator.cpp)\<close>

text \<open>
  The comparator, branch by branch. Strings compare as \<open>std::string\<close> does, byte by
  byte in the order of the byte values, a proper prefix first: the lexicographic order
  of lists over the order of characters.
\<close>

definition anomalySeverityComparator :: "Anomaly \<Rightarrow> Anomaly \<Rightarrow> bool" where
  "anomalySeverityComparator a b =
     (if a_severity a \<noteq> a_severity b
        then severity_ordinal (a_severity a) > severity_ordinal (a_severity b)
      else if a_score a \<noteq> a_score b then a_score a > a_score b
      else if a_windowEnd a \<noteq> a_windowEnd b then a_windowEnd a > a_windowEnd b
      else a_description a < a_description b)"

text \<open>
  \<open>std::sort\<close> returns a permutation of its range in which no element is ordered by the
  comparator before an element on its left; it does not say in which order it leaves
  elements that the comparator does not separate. The model is the insertion sort, one
  such result; lemma \<open>std_sort_keys_unique\<close> shows that every such result has the
  same sequence of sort keys.
\<close>

fun sort_insert :: "Anomaly \<Rightarrow> Anomaly list \<Rightarrow> Anomaly list" where
  "sort_insert x [] = [x]"
| "sort_insert x (y # ys) =
     (if anomalySeverityComparator y x then y # sort_insert x ys else x # y # ys)"

definition std_sort :: "Anomaly list \<Rightarrow> Anomaly list" where
  "std_sort xs = foldr sort_insert xs []"

datatype OutputFormat = CONSOLE | JSON | CSV | SUMMARY

record ReportGenerator =
  m_sortedAnomalies :: "Anomaly list"
  m_reportData :: Report
  m_format :: OutputFormat
  m_maxAnomalies :: nat
  m_includeSamples :: bool

definition ReportGenerator_init :: "OutputFormat \<Rightarrow> ReportGenerator" where
  "ReportGenerator_init fmt =
     \<lparr>m_sortedAnomalies = [], m_reportData = Report_empty, m_format = fmt,
      m_maxAnomalies = 50, m_includeSamples = True\<rparr>"

definition setMaxAnomalies :: "ReportGenerator \<Rightarrow> nat \<Rightarrow> ReportGenerator" where
  "setMaxAnomalies gen n = gen\<lparr>m_maxAnomalies := n\<rparr>"



definition rank_key :: "Anomaly \<Rightarrow> int \<times> real \<times> int \<times> string" where
  "rank_key a =
     (- severity_ordinal (a_severity a), - a_score a, - a_windowEnd a, a_description a)"

section \<open>The pipeline driver (main.cpp)\<close>


























section \<open>Properties of the parser\<close>

lemma tryParsePattern_source:
  "tryParsePattern line pat = Some e \<Longrightarrow>
     source e = Some (case extractSource line of Some s \<Rightarrow> s | None \<Rightarrow> ''unknown'')"
  by (auto simp: tryParsePattern_def split: option.splits)

lemma tryParsePattern_message:
  "tryParsePattern line pat = Some e \<Longrightarrow> message e \<noteq> []"
  by (auto simp: tryParsePattern_def extractMessage_def Let_def split: option.splits if_splits)

lemma try_patterns_source:
  "try_patterns line pats = Some e \<Longrightarrow> source e \<noteq> None"
  by (induction pats) (auto split: option.splits dest: tryParsePattern_source)

lemma try_patterns_message:
  "try_patterns line pats = Some e \<Longrightarrow> message e \<noteq> []"
  by (induction pats) (auto split: option.splits dest: tryParsePattern_message)

lemma tryParseJsonLine_source:
  "fst (tryParseJsonLine line) = Some e \<Longrightarrow>
     source e = Some (case or_else (extractJsonString line ''service'')
                            (or_else (extractJsonString line ''component'')
                               (extractJsonString line ''source'')) of
                        Some s \<Rightarrow> s | None \<Rightarrow> ''unknown'')"
  by (auto simp: tryParseJsonLine_def Let_def split: option.splits)

text \<open>
  Claim C4. A line whose first 19 characters are an instant before 2000-01-01 00:00:00
  is to be a parse failure. The parser never consults \<open>isReasonableTime\<close>: the line
  \<open>1995-06-15 12:00:00 INFO svc: hello world\<close> becomes an entry whose timestamp is
  803217600, years before the bound 946684800 that \<open>isReasonableTime\<close> tests, and the
  same holds for the last second of 1999.
\<close>

theorem C4_pre2000_line_is_parsed:
  "map_option timestamp
     (entry (parseLineDetailed default_patterns ''1995-06-15 12:00:00 INFO svc: hello world''))
     = Some 803217600
   \<and> \<not> isReasonableTime 803217600
   \<and> malformed (parseLineDetailed default_patterns
        ''1995-06-15 12:00:00 INFO svc: hello world'') = False
   \<and> parseTimestamp ''1999-12-31 23:59:59'' = Some 946684799"
  by code_simp

text \<open>
  Claim C5. The message of a parsed entry is to be non-empty, for text and for JSON
  lines. The text path refuses an empty message (\<open>tryParsePattern_message\<close> above); the
  JSON path has no such test, and a JSON line whose \<open>message\<close> value is the empty string
  becomes an entry with the empty message.
\<close>

theorem C5_json_empty_message_is_parsed:
  "map_option message
     (entry (parseLineDetailed default_patterns
        ''{\"time\":\"2024-01-01T00:00:00\",\"level\":\"ERROR\",\"message\":\"\"}''))
     = Some []
   \<and> malformed (parseLineDetailed default_patterns
        ''{\"time\":\"2024-01-01T00:00:00\",\"level\":\"ERROR\",\"message\":\"\"}'') = False"
  by code_simp

text \<open>
  Claim C9. Every entry the parser returns has a source that is present: a text line
  from which no source token is extracted, and a JSON line with none of the keys
  \<open>service\<close>, \<open>component\<close>, \<open>source\<close>, carry the literal \<open>unknown\<close>.
\<close>

theorem C9_source_always_present:
  "(entry (parseLineDetailed pats raw) = Some e \<longrightarrow> source e \<noteq> None) \<and>
   (tryParsePattern line pat = Some e1 \<and> extractSource line = None
      \<longrightarrow> source e1 = Some ''unknown'') \<and>
   (fst (tryParseJsonLine jline) = Some e2 \<and> extractJsonString jline ''service'' = None
      \<and> extractJsonString jline ''component'' = None
      \<and> extractJsonString jline ''source'' = None
      \<longrightarrow> source e2 = Some ''unknown'')"
proof (intro conjI impI)
  assume h: "entry (parseLineDetailed pats raw) = Some e"
  show "source e \<noteq> None"
  proof (cases "trimSv raw = []")
    case True
    with h show ?thesis by (simp add: parseLineDetailed_def)
  next
    case ne: False
    show ?thesis
    proof (cases "hd (trimSv raw) = CHR ''{''")
      case True
      with ne h have "fst (tryParseJsonLine (trimSv raw)) = Some e"
        by (auto simp: parseLineDetailed_def Let_def split: prod.splits option.splits)
      then show ?thesis by (simp add: tryParseJsonLine_source)
    next
      case False
      with ne h have "try_patterns (trimSv raw) pats = Some e"
        by (auto simp: parseLineDetailed_def Let_def split: option.splits)
      then show ?thesis by (rule try_patterns_source)
    qed
  qed
next
  assume "tryParsePattern line pat = Some e1 \<and> extractSource line = None"
  then show "source e1 = Some ''unknown''"
    by (auto dest: tryParsePattern_source)
next
  assume "fst (tryParseJsonLine jline) = Some e2 \<and> extractJsonString jline ''service'' = None
      \<and> extractJsonString jline ''component'' = None
      \<and> extractJsonString jline ''source'' = None"
  then show "source e2 = Some ''unknown''"
    by (auto dest: tryParseJsonLine_source simp: or_else_def)
qed

lemma text_line_parses:
  "parseLineDetailed default_patterns ''2024-01-01 00:00:00 INFO svc: hello world'' =
     \<lparr>entry = Some \<lparr>timestamp = 1704067200, level = Info, source = Some ''unknown'',
                     message = ''hello world'',
                     rawLine = Some ''2024-01-01 00:00:00 INFO svc: hello world''\<rparr>,
      wasJson = False, malformed = False, error = []\<rparr>"
  by code_simp

lemma text_line_pattern:
  "tryParsePattern ''2024-01-01 00:00:00 INFO svc: hello world'' [] =
     Some \<lparr>timestamp = 1704067200, level = Info, source = Some ''unknown'',
           message = ''hello world'',
           rawLine = Some ''2024-01-01 00:00:00 INFO svc: hello world''\<rparr>
   \<and> extractSource ''2024-01-01 00:00:00 INFO svc: hello world'' = None"
  by code_simp

lemma json_line_parses:
  "fst (tryParseJsonLine
      ''{\"time\":\"2024-01-01T00:00:00\",\"level\":\"ERROR\",\"message\":\"timeout\"}'') =
     Some \<lparr>timestamp = 1704067200, level = Error, source = Some ''unknown'',
           message = ''timeout'',
           rawLine = Some
             ''{\"time\":\"2024-01-01T00:00:00\",\"level\":\"ERROR\",\"message\":\"timeout\"}''\<rparr>
   \<and> extractJsonString
        ''{\"time\":\"2024-01-01T00:00:00\",\"level\":\"ERROR\",\"message\":\"timeout\"}''
        ''service'' = None
   \<and> extractJsonString
        ''{\"time\":\"2024-01-01T00:00:00\",\"level\":\"ERROR\",\"message\":\"timeout\"}''
        ''component'' = None
   \<and> extractJsonString
        ''{\"time\":\"2024-01-01T00:00:00\",\"level\":\"ERROR\",\"message\":\"timeout\"}''
        ''source'' = None"
  by code_simp

theorem C9_source_always_present_witness:
  "entry (parseLineDetailed default_patterns ''2024-01-01 00:00:00 INFO svc: hello world'')
     = Some \<lparr>timestamp = 1704067200, level = Info, source = Some ''unknown'',
             message = ''hello world'',
             rawLine = Some ''2024-01-01 00:00:00 INFO svc: hello world''\<rparr>
   \<and> source \<lparr>timestamp = 1704067200, level = Info, source = Some ''unknown'',
             message = ''hello world'',
             rawLine = Some ''2024-01-01 00:00:00 INFO svc: hello world''\<rparr> \<noteq> None
   \<and> extractSource ''2024-01-01 00:00:00 INFO svc: hello world'' = None
   \<and> extractJsonString
        ''{\"time\":\"2024-01-01T00:00:00\",\"level\":\"ERROR\",\"message\":\"timeout\"}''
        ''service'' = None
   \<and> source \<lparr>timestamp = 1704067200, level = Error, source = Some ''unknown'',
           message = ''timeout'',
           rawLine = Some
             ''{\"time\":\"2024-01-01T00:00:00\",\"level\":\"ERROR\",\"message\":\"timeout\"}''\<rparr>
       = Some ''unknown''"
  using C9_source_always_present
    [of default_patterns "''2024-01-01 00:00:00 INFO svc: hello world''"
        "\<lparr>timestamp = 1704067200, level = Info, source = Some ''unknown'',
             message = ''hello world'',
             rawLine = Some ''2024-01-01 00:00:00 INFO svc: hello world''\<rparr>"
        "''2024-01-01 00:00:00 INFO svc: hello world''" "[]"
        "\<lparr>timestamp = 1704067200, level = Info, source = Some ''unknown'',
             message = ''hello world'',
             rawLine = Some ''2024-01-01 00:00:00 INFO svc: hello world''\<rparr>"
        "''{\"time\":\"2024-01-01T00:00:00\",\"level\":\"ERROR\",\"message\":\"timeout\"}''"
        "\<lparr>timestamp = 1704067200, level = Error, source = Some ''unknown'',
           message = ''timeout'',
           rawLine = Some
             ''{\"time\":\"2024-01-01T00:00:00\",\"level\":\"ERROR\",\"message\":\"timeout\"}''\<rparr>"]
    text_line_parses text_line_pattern json_line_parses
  by simp

text \<open>
  A present source can still be the empty string: a JSON line may say so itself.
\<close>

lemma json_empty_service_source:
  "map_option source
     (entry (parseLineDetailed default_patterns
        ''{\"time\":\"2024-01-01T00:00:00\",\"level\":\"INFO\",\"service\":\"\",\"message\":\"up\"}''))
     = Some (Some [])"
  by code_simp

section \<open>Properties of the SpikeDetector\<close>












text \<open>
  Claim C10. \<open>setSpikeThreshold\<close> stores \<open>max(1.1, v)\<close> and \<open>setMaxSampleEvents\<close>
  stores \<open>max(1, n)\<close>; in every detector reached from the initial one the threshold is
  above 1, so the divisor \<open>threshold - 1\<close> of the severity is not zero, and at least
  one sample is kept.
\<close>

theorem C10_spike_threshold_guard:
  "m_spikeThreshold (setSpikeThreshold det v) = max (11 / 10) v
   \<and> m_maxSampleEvents (setMaxSampleEvents det n) = max 1 n
   \<and> m_spikeThreshold (spike_run ops) > 1
   \<and> m_spikeThreshold (spike_run ops) - 1 \<noteq> 0
   \<and> m_maxSampleEvents (spike_run ops) \<ge> 1"
proof -
  have step: "m_spikeThreshold d > 1 \<and> m_maxSampleEvents d \<ge> 1 \<Longrightarrow>
      m_spikeThreshold (spike_apply d op) > 1 \<and> m_maxSampleEvents (spike_apply d op) \<ge> 1" for d op
    by (cases op)
       (auto simp: setSpikeThreshold_def setShortWindow_def setBaselineWindow_def
          setMaxSampleEvents_def spike_reset_def spike_processEntry_def Let_def
          split: option.splits)
  have fold: "m_spikeThreshold d > 1 \<and> m_maxSampleEvents d \<ge> 1 \<Longrightarrow>
      m_spikeThreshold (foldl spike_apply d ops) > 1 \<and> m_maxSampleEvents (foldl spike_apply d ops) \<ge> 1" for d
  proof (induction ops arbitrary: d)
    case Nil
    then show ?case by simp
  next
    case (Cons a ops)
    have "m_spikeThreshold (spike_apply d a) > 1 \<and> m_maxSampleEvents (spike_apply d a) \<ge> 1"
      by (rule step[OF Cons.prems])
    from Cons.IH[OF this] show ?case by simp
  qed
  have "m_spikeThreshold (spike_run ops) > 1 \<and> m_maxSampleEvents (spike_run ops) \<ge> 1"
    unfolding spike_run_def by (rule fold) (simp add: SpikeDetector_init_def)
  then show ?thesis
    by (simp add: setSpikeThreshold_def setMaxSampleEvents_def)
qed

section \<open>Properties of the BurstPatternDetector\<close>

lemma evictOld_fresh:
  "0 \<le> w \<Longrightarrow> evictOld w (replicate (Suc n) (t, e)) t = replicate (Suc n) (t, e)"
  by simp

lemma burst_step_same:
  assumes dq: "burst_deque det e = replicate n (timestamp e, e)" and w: "0 \<le> m_window det"
  shows "map (\<lambda>b. fst (b_description b)) (fst (burst_processEntry det e)) =
           (if n + 1 \<ge> m_minRepeats det then [n + 1] else [])"
    and "map b_score (fst (burst_processEntry det e)) =
           (if n + 1 \<ge> m_minRepeats det then [real (n + 1)] else [])"
    and "burst_deque (snd (burst_processEntry det e)) e =
           replicate (burst_next_len (m_minRepeats det) n) (timestamp e, e)"
    and "m_window (snd (burst_processEntry det e)) = m_window det"
    and "m_minRepeats (snd (burst_processEntry det e)) = m_minRepeats det"
proof -
  have ev: "evictOld (m_window det)
              ((case m_states det (signature e) of Some evs \<Rightarrow> evs | None \<Rightarrow> []) @ [(timestamp e, e)])
              (timestamp e) = replicate (Suc n) (timestamp e, e)"
    using dq w evictOld_fresh[of "m_window det" n "timestamp e" e]
    by (simp add: burst_deque_def replicate_append_same)
  show "map (\<lambda>b. fst (b_description b)) (fst (burst_processEntry det e)) =
           (if n + 1 \<ge> m_minRepeats det then [n + 1] else [])"
    by (simp add: burst_processEntry_def Let_def ev)
  show "map b_score (fst (burst_processEntry det e)) =
           (if n + 1 \<ge> m_minRepeats det then [real (n + 1)] else [])"
    by (simp add: burst_processEntry_def Let_def ev)
  show "burst_deque (snd (burst_processEntry det e)) e =
           replicate (burst_next_len (m_minRepeats det) n) (timestamp e, e)"
    by (simp add: burst_processEntry_def Let_def ev burst_deque_def burst_next_len_def
          del: replicate_Suc)
  show "m_window (snd (burst_processEntry det e)) = m_window det"
    by (simp add: burst_processEntry_def Let_def)
  show "m_minRepeats (snd (burst_processEntry det e)) = m_minRepeats det"
    by (simp add: burst_processEntry_def Let_def)
qed

lemma burst_trace_same:
  "burst_deque det e = replicate n (timestamp e, e) \<Longrightarrow> 0 \<le> m_window det \<Longrightarrow>
     map (map (\<lambda>b. fst (b_description b))) (burst_trace det (replicate k e)) =
       burst_counts (m_minRepeats det) n k"
proof (induction k arbitrary: det n)
  case 0
  then show ?case by simp
next
  case (Suc k)
  note st = burst_step_same[OF Suc.prems]
  have "map (map (\<lambda>b. fst (b_description b)))
          (burst_trace (snd (burst_processEntry det e)) (replicate k e)) =
        burst_counts (m_minRepeats det) (burst_next_len (m_minRepeats det) n) k"
    using Suc.IH[OF st(3)] Suc.prems(2) by (simp add: st(4) st(5))
  then show ?case by (simp add: st(1))
qed

lemma burst_trace_same_score:
  "burst_deque det e = replicate n (timestamp e, e) \<Longrightarrow> 0 \<le> m_window det \<Longrightarrow>
     map (map b_score) (burst_trace det (replicate k e)) =
       map (map real) (burst_counts (m_minRepeats det) n k)"
proof (induction k arbitrary: det n)
  case 0
  then show ?case by simp
next
  case (Suc k)
  note st = burst_step_same[OF Suc.prems]
  have "map (map b_score)
          (burst_trace (snd (burst_processEntry det e)) (replicate k e)) =
        map (map real) (burst_counts (m_minRepeats det) (burst_next_len (m_minRepeats det) n) k)"
    using Suc.IH[OF st(3)] Suc.prems(2) by (simp add: st(4) st(5))
  then show ?case by (simp add: st(2))
qed

lemma burst_counts_25: "burst_counts 20 0 25 = replicate 19 [] @ [[20], [21]] @ replicate 4 []"
  by code_simp

text \<open>
  Claim C2. With the defaults, a deque that reaches length \<open>c \<ge> min_repeats\<close> is to emit
  once and be truncated, so that 25 identical entries emit exactly one burst, at the
  20th. The code truncates only when the length exceeds \<open>m_minRepeats\<close>: at the 20th
  entry (\<open>c = 20\<close>) it emits and keeps all 20 events, at the 21st (\<open>c = 21\<close>) it emits
  again and only then cuts the deque to 10. For 25 entries equal to \<open>cache_miss_entry\<close>
  the bursts emitted are one of score 20 at the 20th entry and one of score 21 at the
  21st.
\<close>

theorem C2_burst_emits_twice:
  "map (map (\<lambda>b. fst (b_description b)))
     (burst_trace BurstPatternDetector_init (replicate 25 cache_miss_entry))
     = replicate 19 [] @ [[20], [21]] @ replicate 4 []
   \<and> map (map b_score) (burst_trace BurstPatternDetector_init (replicate 25 cache_miss_entry))
     = replicate 19 [] @ [[20], [21]] @ replicate 4 []"
proof -
  have dq: "burst_deque BurstPatternDetector_init cache_miss_entry
              = replicate 0 (timestamp cache_miss_entry, cache_miss_entry)"
    by (simp add: burst_deque_def BurstPatternDetector_init_def)
  have w: "0 \<le> m_window BurstPatternDetector_init"
    by (simp add: BurstPatternDetector_init_def)
  have m: "m_minRepeats BurstPatternDetector_init = 20"
    by (simp add: BurstPatternDetector_init_def)
  show ?thesis
    using burst_trace_same[OF dq w, of 25] burst_trace_same_score[OF dq w, of 25]
    by (simp add: m burst_counts_25)
qed

section \<open>Properties of the IpFrequencyDetector\<close>

lemma ip_max_const: "m_maxCountForRare (snd (ip_processEntry det e)) = m_maxCountForRare det"
  by (simp add: ip_processEntry_def Let_def split: option.splits)

lemma ip_count_step:
  "ip_count (snd (ip_processEntry det e)) a =
     ip_count det a + (if extractIp (message e) = Some a then 1 else 0)"
  by (auto simp: ip_processEntry_def ip_count_def Let_def split: option.splits)

lemma ip_hits_step:
  "length (filter (\<lambda>h. hit_ip h = a) (fst (ip_processEntry det e))) =
     (if extractIp (message e) = Some a \<and> ip_count det a + 1 \<le> m_maxCountForRare det
      then 1 else 0)"
  by (auto simp: ip_processEntry_def Let_def split: option.splits)

lemma ip_run_hits:
  "length (filter (\<lambda>h. hit_ip h = a) (ip_run det es)) =
     min (ip_count det a + length (filter (\<lambda>e. extractIp (message e) = Some a) es))
         (m_maxCountForRare det)
       - min (ip_count det a) (m_maxCountForRare det)"
proof (induction es arbitrary: det)
  case Nil
  then show ?case by simp
next
  case (Cons e es)
  show ?case
    by (simp add: Cons.IH ip_max_const ip_count_step ip_hits_step)
qed

lemma ip_run_init_hits:
  "length (filter (\<lambda>h. hit_ip h = a) (ip_run IpFrequencyDetector_init es)) =
     min (length (filter (\<lambda>e. extractIp (message e) = Some a) es)) 5"
  using ip_run_hits[of a IpFrequencyDetector_init es]
  by (simp add: IpFrequencyDetector_init_def ip_count_def)

lemma extractIp_frequent: "extractIp (message (ip_entry ''10.0.0.1'')) = Some ''10.0.0.1''" by code_simp
lemma extractIp_rare: "extractIp (message (ip_entry ''10.0.0.7'')) = Some ''10.0.0.7''" by code_simp

lemma stream_frequent_count: "length (filter (\<lambda>e. extractIp (message e) = Some ''10.0.0.1'') rare_ip_stream) = 995"
  by (simp add: rare_ip_stream_def extractIp_frequent extractIp_rare filter_concat length_concat sum_list_replicate)
lemma stream_rare_count: "length (filter (\<lambda>e. extractIp (message e) = Some ''10.0.0.7'') rare_ip_stream) = 5"
  by (simp add: rare_ip_stream_def extractIp_frequent extractIp_rare filter_concat length_concat sum_list_replicate)

lemma ip_hit_origin:
  "h \<in> set (ip_run det es) \<Longrightarrow> \<exists>e \<in> set es. extractIp (message e) = Some (hit_ip h)"
proof (induction es arbitrary: det)
  case Nil
  then show ?case by simp
next
  case (Cons e es)
  from Cons.prems have "h \<in> set (fst (ip_processEntry det e))
      \<or> h \<in> set (ip_run (snd (ip_processEntry det e)) es)" by simp
  then show ?case
  proof
    assume "h \<in> set (fst (ip_processEntry det e))"
    then have "extractIp (message e) = Some (hit_ip h)"
      by (auto simp: ip_processEntry_def Let_def split: option.splits if_splits)
    then show ?thesis by simp
  next
    assume "h \<in> set (ip_run (snd (ip_processEntry det e)) es)"
    from Cons.IH[OF this] show ?thesis by auto
  qed
qed

lemma rare_ip_stream_set:
  "e \<in> set rare_ip_stream \<Longrightarrow> e = ip_entry ''10.0.0.1'' \<or> e = ip_entry ''10.0.0.7''"
  by (auto simp: rare_ip_stream_def)

lemma rare_ip_total: "length (ip_run IpFrequencyDetector_init rare_ip_stream) = 10"
proof -
  let ?run = "ip_run IpFrequencyDetector_init rare_ip_stream"
  have two: "hit_ip h = ''10.0.0.1'' \<or> hit_ip h = ''10.0.0.7''" if "h \<in> set ?run" for h
  proof -
    from ip_hit_origin[OF that] obtain e where e: "e \<in> set rare_ip_stream"
      and x: "extractIp (message e) = Some (hit_ip h)" by blast
    from rare_ip_stream_set[OF e] x show ?thesis
      by (auto simp: extractIp_frequent extractIp_rare)
  qed
  have "filter (\<lambda>h. \<not> hit_ip h = ''10.0.0.1'') ?run = filter (\<lambda>h. hit_ip h = ''10.0.0.7'') ?run"
    by (rule filter_cong) (use two in auto)
  moreover have "length ?run = length (filter (\<lambda>h. hit_ip h = ''10.0.0.1'') ?run)
      + length (filter (\<lambda>h. \<not> hit_ip h = ''10.0.0.1'') ?run)"
    by (simp add: sum_length_filter_compl)
  ultimately show ?thesis
    by (simp add: ip_run_init_hits stream_frequent_count stream_rare_count)
qed

text \<open>
  Claim C3, as the code has it. An entry emits a hit exactly when an address is
  extracted from its message and the counter of that address, after the increment, is
  at most \<open>max_count_for_rare\<close>; the counter of the extracted address goes up by one.
  Over a stream, with the default 5, an address seen \<open>n\<close> times is therefore reported
  \<open>min n 5\<close> times, whatever the other addresses do. In the scenario of 1000 lines the
  5 lines of 10.0.0.7 give 5 hits, and the first 5 of the 995 lines of 10.0.0.1 give 5
  more: 10 hits in all.
\<close>

theorem C3_rare_ip_first_occurrences:
  "(fst (ip_processEntry det e) \<noteq> [] \<longleftrightarrow>
      (\<exists>ip. extractIp (message e) = Some ip \<and> ip_count det ip + 1 \<le> m_maxCountForRare det))
   \<and> ip_count (snd (ip_processEntry det e)) a =
       ip_count det a + (if extractIp (message e) = Some a then 1 else 0)
   \<and> length (filter (\<lambda>h. hit_ip h = a) (ip_run IpFrequencyDetector_init es)) =
       min (length (filter (\<lambda>e. extractIp (message e) = Some a) es)) 5
   \<and> length (filter (\<lambda>h. hit_ip h = ''10.0.0.7'')
        (ip_run IpFrequencyDetector_init rare_ip_stream)) = 5
   \<and> length (filter (\<lambda>h. hit_ip h = ''10.0.0.1'')
        (ip_run IpFrequencyDetector_init rare_ip_stream)) = 5
   \<and> length (ip_run IpFrequencyDetector_init rare_ip_stream) = 10"
proof -
  have "fst (ip_processEntry det e) \<noteq> [] \<longleftrightarrow>
      (\<exists>ip. extractIp (message e) = Some ip \<and> ip_count det ip + 1 \<le> m_maxCountForRare det)"
    by (auto simp: ip_processEntry_def Let_def split: option.splits)
  then show ?thesis
    by (simp add: ip_count_step ip_run_init_hits stream_frequent_count stream_rare_count rare_ip_total)
qed

text \<open>
  The claim as stated fails on its own scenario: the stream has 1000 entries, 5 of them
  with 10.0.0.7 and 995 with 10.0.0.1, and the hits are not 5 in number, nor is the
  number of hits for 10.0.0.1 zero.
\<close>

theorem C3_scenario_counterexample:
  "length rare_ip_stream = 1000
   \<and> length (filter (\<lambda>e. extractIp (message e) = Some ''10.0.0.7'') rare_ip_stream) = 5
   \<and> length (filter (\<lambda>e. extractIp (message e) = Some ''10.0.0.1'') rare_ip_stream) = 995
   \<and> length (ip_run IpFrequencyDetector_init rare_ip_stream) \<noteq> 5
   \<and> length (filter (\<lambda>h. hit_ip h = ''10.0.0.1'')
        (ip_run IpFrequencyDetector_init rare_ip_stream)) \<noteq> 0"
proof -
  have "length rare_ip_stream = 1000"
    by (simp add: rare_ip_stream_def length_concat sum_list_replicate)
  then show ?thesis
    by (simp add: stream_frequent_count stream_rare_count rare_ip_total ip_run_init_hits)
qed

section \<open>Properties of the TimeWindowAnalyzer\<close>

lemma push_history_last:
  "push_history mh hist b = [] \<or> last (push_history mh hist b) = b"
proof (cases "length (hist @ [b]) > mh")
  case True
  show ?thesis
  proof (cases hist)
    case Nil
    with True show ?thesis by (simp add: push_history_def)
  next
    case (Cons x xs)
    with True show ?thesis by (simp add: push_history_def Let_def)
  qed
next
  case False
  then show ?thesis by (simp add: push_history_def Let_def)
qed

lemma advance_windows_adjacent:
  "advance_windows wsize mh ts cur hist = Some (cur', hist') \<Longrightarrow>
     hist = [] \<or> bk_end (last hist) = bk_start cur \<Longrightarrow>
     hist' = [] \<or> bk_end (last hist') = bk_start cur'"
proof (induction wsize mh ts cur hist rule: advance_windows.induct)
  case (1 wsize mh ts cur hist)
  show ?case
  proof (cases "ts \<ge> bk_end cur")
    case False
    with "1.prems" show ?thesis by (simp add: advance_windows.simps)
  next
    case True
    show ?thesis
    proof (cases "wsize \<le> 0")
      case True
      with \<open>ts \<ge> bk_end cur\<close> "1.prems"(1) show ?thesis
        by (simp add: advance_windows.simps)
    next
      case False
      let ?cur = "\<lparr>bk_start = bk_end cur, bk_end = bk_end cur + wsize, bk_events = [],
                   bk_sourceCounts = Map.empty\<rparr>"
      have rec: "advance_windows wsize mh ts ?cur (push_history mh hist cur) = Some (cur', hist')"
        using "1.prems"(1) True False by (subst (asm) advance_windows.simps) simp
      have adj: "push_history mh hist cur = []
          \<or> bk_end (last (push_history mh hist cur)) = bk_start ?cur"
        using push_history_last[of mh hist cur] by auto
      from "1.IH"[OF True False rec adj] show ?thesis .
    qed
  qed
qed

lemma addEntry_adjacent:
  assumes "addEntry an e = Some an'" and "tw_adjacent an"
  shows "tw_adjacent an'" and "m_silenceThreshold an' = m_silenceThreshold an"
proof -
  let ?cur0 = "if \<not> m_initialized an
               then (m_currentWindow an)\<lparr>bk_start := timestamp e, bk_end := timestamp e + m_windowSize an\<rparr>
               else m_currentWindow an"
  from assms(1) obtain cur hist where
    adv: "advance_windows (m_windowSize an) (m_maxHistoryWindows an) (timestamp e) ?cur0
            (m_windowHistory an) = Some (cur, hist)"
    by (auto simp: addEntry_def addEventUnlocked_def Let_def split: option.splits)
  have start0: "m_windowHistory an = [] \<or> bk_end (last (m_windowHistory an)) = bk_start ?cur0"
    using assms(2) by (auto simp: tw_adjacent_def)
  have res: "m_windowHistory an' = hist" "bk_start (m_currentWindow an') = bk_start cur"
    "m_silenceThreshold an' = m_silenceThreshold an" "m_initialized an'"
    using assms(1) adv
    by (auto simp: addEntry_def addEventUnlocked_def Let_def evictOldEvents_def
          split: option.splits if_splits prod.splits)
  show "m_silenceThreshold an' = m_silenceThreshold an" by (rule res(3))
  from advance_windows_adjacent[OF adv start0] show "tw_adjacent an'"
    by (simp add: tw_adjacent_def res)
qed

lemma tw_run_adjacent:
  "tw_run an es = Some an' \<Longrightarrow> tw_adjacent an \<Longrightarrow>
     tw_adjacent an' \<and> m_silenceThreshold an' = m_silenceThreshold an"
proof (induction es arbitrary: an)
  case Nil
  then show ?case by simp
next
  case (Cons e es)
  from Cons.prems(1) obtain an1 where a1: "addEntry an e = Some an1"
    and r: "tw_run an1 es = Some an'"
    by (auto split: option.splits)
  from addEntry_adjacent[OF a1 Cons.prems(2)] Cons.IH[OF r] show ?case by simp
qed

lemma keep_positive_error_spike:
  "filter (\<lambda>a. contains_Silence (tw_description a)) (keep_positive (checkErrorSpike an w x)) = []"
  by (simp add: keep_positive_def checkErrorSpike_def tw_Anomaly_uninit_def Let_def)

lemma keep_positive_burst:
  "filter (\<lambda>a. contains_Silence (tw_description a)) (keep_positive (checkBurst an w x)) = []"
  by (simp add: keep_positive_def checkBurst_def tw_Anomaly_uninit_def Let_def)

lemma check_history_no_silence:
  "filter (\<lambda>a. contains_Silence (tw_description a)) (check_history an ws indet k) = []"
  by (induction ws arbitrary: k) (simp_all add: keep_positive_error_spike keep_positive_burst)

lemma adjacent_no_silence:
  assumes "tw_adjacent an" and "0 \<le> m_silenceThreshold an"
  shows "filter (\<lambda>a. contains_Silence (tw_description a)) (detectAnomalies an indet) = []"
proof -
  have "filter (\<lambda>a. contains_Silence (tw_description a))
          (keep_positive (checkSilence an (m_currentWindow an) x)) = []" for x
    using assms
    by (auto simp: keep_positive_def checkSilence_def tw_Anomaly_uninit_def Let_def
          tw_adjacent_def diffSeconds_def)
  then show ?thesis
    by (simp add: detectAnomalies_def keep_positive_error_spike keep_positive_burst
          check_history_no_silence)
qed

lemma tw_init_adjacent: "tw_adjacent TimeWindowAnalyzer_init"
  by (simp add: tw_adjacent_def TimeWindowAnalyzer_init_def)

lemma addEntry_stream_no_silence:
  assumes "tw_run TimeWindowAnalyzer_init es = Some an"
  shows "filter (\<lambda>a. contains_Silence (tw_description a)) (detectAnomalies an indet) = []"
proof -
  from tw_run_adjacent[OF assms tw_init_adjacent]
  have "tw_adjacent an" and "m_silenceThreshold an = 300"
    by (simp_all add: TimeWindowAnalyzer_init_def)
  then show ?thesis by (intro adjacent_no_silence) simp_all
qed

lemma silence_stream_state:
  "map_option (\<lambda>an. (bk_start (m_currentWindow an), bk_end (last (m_windowHistory an)),
                      length (m_windowHistory an)))
     (tw_run TimeWindowAnalyzer_init silence_stream) = Some (1704067800, 1704067800, 10)"
  by code_simp

text \<open>
  \<open>checkSilence\<close> itself does what the specification says of it: given a history whose
  newest bucket ends more than the threshold before the bucket it is asked about, it
  describes a silence with the score \<open>min(1, gap / threshold)\<close>, which is positive
  and so is kept. No analyzer fed by \<open>addEntry\<close> is ever in such a state.
\<close>

lemma checkSilence_on_gap:
  assumes "m_windowHistory an \<noteq> []"
    and "gap = bk_start bucket - bk_end (last (m_windowHistory an))"
    and "m_silenceThreshold an < gap" and "0 < m_silenceThreshold an"
  shows "tw_description (checkSilence an bucket x) = SilenceText gap"
    and "tw_score (checkSilence an bucket x)
           = min 1 (real_of_int gap / real_of_int (m_silenceThreshold an))"
    and "keep_positive (checkSilence an bucket x) = [checkSilence an bucket x]"
  using assms by (simp_all add: checkSilence_def diffSeconds_def Let_def keep_positive_def)

text \<open>
  Claim C1. After 5 entries at 00:00:00 to 00:00:04 and 5 entries at 00:10:00 to
  00:10:04 the review is to emit one Silence anomaly. \<open>addEventUnlocked\<close> fills the gap
  with empty buckets, each starting where the one before ends, so the newest bucket of
  the history always ends where the current one starts: in the scenario the history
  holds 10 buckets, the last ending at 00:10:00 (1704067800), where the current bucket
  starts. The gap that \<open>checkSilence\<close> measures is 0, never above the threshold of 300,
  and the review returns no anomaly whose description contains \<open>Silence\<close>, whatever is
  read from the scores that were never written.
\<close>

theorem C1_no_silence_after_gap:
  "map_option (\<lambda>an. (bk_start (m_currentWindow an), bk_end (last (m_windowHistory an)),
                      length (m_windowHistory an)))
     (tw_run TimeWindowAnalyzer_init silence_stream) = Some (1704067800, 1704067800, 10)
   \<and> map_option (\<lambda>an. filter (\<lambda>a. contains_Silence (tw_description a)) (detectAnomalies an indet))
       (tw_run TimeWindowAnalyzer_init silence_stream) = Some []"
proof -
  from silence_stream_state obtain an where
    an: "tw_run TimeWindowAnalyzer_init silence_stream = Some an"
    by (cases "tw_run TimeWindowAnalyzer_init silence_stream") auto
  from addEntry_stream_no_silence[OF an] silence_stream_state show ?thesis
    by (simp add: an)
qed

section \<open>Properties of the ReportGenerator\<close>

lemma severity_ordinal_inj: "severity_ordinal s = severity_ordinal t \<longleftrightarrow> s = t"
  by (cases s; cases t) simp_all

lemma comparator_iff_key: "anomalySeverityComparator a b \<longleftrightarrow> rank_key a < rank_key b"
  by (auto simp: anomalySeverityComparator_def rank_key_def severity_ordinal_inj[symmetric])


lemma sort_insert_insort: "sort_insert x ys = insort_key rank_key x ys"
  by (induction ys) (auto simp: comparator_iff_key)

lemma std_sort_sort_key: "std_sort xs = sort_key rank_key xs"
  by (induction xs) (simp_all add: std_sort_def sort_insert_insort)

lemma std_sort_mset: "mset (std_sort xs) = mset xs"
  by (simp add: std_sort_sort_key)


lemma std_sort_keys_unique:
  assumes "mset ys = mset xs"
    and "sorted_wrt (\<lambda>a b. \<not> anomalySeverityComparator b a) ys"
  shows "map rank_key ys = map rank_key (std_sort xs)"
proof -
  have s: "sorted (map rank_key ys)"
    using assms(2) by (simp add: sorted_map comparator_iff_key not_less)
  have "mset (map rank_key ys) = mset (map rank_key (std_sort xs))"
    using assms(1) by (simp add: std_sort_mset)
  moreover have "sorted (map rank_key (std_sort xs))" by (simp add: std_sort_sort_key)
  ultimately show ?thesis using s
    by (metis properties_for_sort)
qed


section \<open>Properties of the pipeline driver\<close>




























end
